theory Spec2Isabelle
  imports Main "HOL-Library.Sublist"
begin

section \<open>Invenio-Records-REST: configuration and the behaviour it drives\<close>

text \<open>
  The development embeds \<^verbatim>\<open>invenio_records_rest/config.py\<close> and the serializer test
  module \<^verbatim>\<open>tests/test_serializer_response.py\<close>. Python dictionaries whose keys are
  fixed by the configuration are association lists read with \<open>map_of\<close>; Python integers
  are \<open>int\<close>; \<^verbatim>\<open>None\<close> is \<open>None\<close>; class and function references that the
  configuration stores are kept by their import name.
\<close>

subsection \<open>Permission factories\<close>

text \<open>
  What a permission factory is called with: the resource it guards. The two flags are the
  ones the specification speaks of (the identity resolves; its target is gone).
\<close>

record resource_context =
  resolves :: bool
  gone :: bool

text \<open>
  A factory builds a permission object for a resource context; the object's only
  observable is the answer of its check, so a factory is the function from the context to
  that answer.
\<close>

type_synonym permission_factory = "resource_context \<Rightarrow> bool"

text \<open>
  Modelled from the spec: \<^verbatim>\<open>utils.allow_all\<close>, imported by config.py. The
  configuration documents it as "allow all requests".
\<close>

definition allow_all :: permission_factory where
  "allow_all ctx = True"

text \<open>
  Modelled from the spec: \<^verbatim>\<open>utils.deny_all\<close>, imported by config.py. The
  configuration documents it as "reject any request"; the specification calls it deny-all.
\<close>

definition deny_all :: permission_factory where
  "deny_all ctx = False"

text \<open>
  Modelled from the spec: \<^verbatim>\<open>utils.check_search\<close>, imported by config.py. The
  configuration documents it as "check if the record exists"; the specification calls it
  allow-if-resolvable: it succeeds only if the identity resolves and is not gone.
\<close>

definition check_search :: permission_factory where
  "check_search ctx = (resolves ctx \<and> \<not> gone ctx)"

definition RECORDS_REST_DEFAULT_CREATE_PERMISSION_FACTORY :: permission_factory where
  "RECORDS_REST_DEFAULT_CREATE_PERMISSION_FACTORY = deny_all"

definition RECORDS_REST_DEFAULT_LIST_PERMISSION_FACTORY :: permission_factory where
  "RECORDS_REST_DEFAULT_LIST_PERMISSION_FACTORY = allow_all"

definition RECORDS_REST_DEFAULT_READ_PERMISSION_FACTORY :: permission_factory where
  "RECORDS_REST_DEFAULT_READ_PERMISSION_FACTORY = check_search"

definition RECORDS_REST_DEFAULT_UPDATE_PERMISSION_FACTORY :: permission_factory where
  "RECORDS_REST_DEFAULT_UPDATE_PERMISSION_FACTORY = deny_all"

definition RECORDS_REST_DEFAULT_DELETE_PERMISSION_FACTORY :: permission_factory where
  "RECORDS_REST_DEFAULT_DELETE_PERMISSION_FACTORY = deny_all"

subsection \<open>Endpoint configuration\<close>

text \<open>
  One entry of \<^verbatim>\<open>RECORDS_REST_ENDPOINTS\<close>. The five
  \<^verbatim>\<open>*_permission_factory_imp\<close> keys are the optional ones of the documented
  structure; a key the dictionary does not have is \<open>None\<close>.
\<close>

record endpoint_config =
  pid_type :: string
  pid_minter :: string
  pid_fetcher :: string
  search_class :: string
  indexer_class :: string
  search_index :: "string option"
  search_query_parser :: "string option"
  record_serializers :: "(string \<times> string) list"
  search_serializers :: "(string \<times> string) list"
  list_route :: string
  item_route :: string
  default_media_type :: string
  max_result_window :: int
  error_handlers :: "(string \<times> string) list"
  create_permission_factory_imp :: "permission_factory option"
  list_permission_factory_imp :: "permission_factory option"
  read_permission_factory_imp :: "permission_factory option"
  update_permission_factory_imp :: "permission_factory option"
  delete_permission_factory_imp :: "permission_factory option"

definition recid :: endpoint_config where
  "recid = \<lparr>
     pid_type = ''recid'',
     pid_minter = ''recid'',
     pid_fetcher = ''recid'',
     search_class = ''RecordsSearch'',
     indexer_class = ''RecordIndexer'',
     search_index = None,
     search_query_parser = None,
     record_serializers =
       [(''application/json'', ''invenio_records_rest.serializers:json_v1_response'')],
     search_serializers =
       [(''application/json'', ''invenio_records_rest.serializers:json_v1_search'')],
     list_route = ''/records/'',
     item_route = ''/records/<pid(recid):pid_value>'',
     default_media_type = ''application/json'',
     max_result_window = 10000,
     error_handlers = [],
     create_permission_factory_imp = None,
     list_permission_factory_imp = None,
     read_permission_factory_imp = None,
     update_permission_factory_imp = None,
     delete_permission_factory_imp = None
   \<rparr>"

definition RECORDS_REST_ENDPOINTS :: "(string \<times> endpoint_config) list" where
  "RECORDS_REST_ENDPOINTS = [(''recid'', recid)]"

text \<open>
  Modelled from the spec: the per-endpoint choice of a permission factory, made by the
  views that are not part of config.py. A factory configured on the endpoint overrides
  the default of its operation; an endpoint without one gets the default.
\<close>

datatype operation = CreateOp | ListOp | ReadOp | UpdateOp | DeleteOp

definition default_permission_factory :: "operation \<Rightarrow> permission_factory" where
  "default_permission_factory op =
     (case op of
        CreateOp \<Rightarrow> RECORDS_REST_DEFAULT_CREATE_PERMISSION_FACTORY
      | ListOp \<Rightarrow> RECORDS_REST_DEFAULT_LIST_PERMISSION_FACTORY
      | ReadOp \<Rightarrow> RECORDS_REST_DEFAULT_READ_PERMISSION_FACTORY
      | UpdateOp \<Rightarrow> RECORDS_REST_DEFAULT_UPDATE_PERMISSION_FACTORY
      | DeleteOp \<Rightarrow> RECORDS_REST_DEFAULT_DELETE_PERMISSION_FACTORY)"

definition configured_permission_factory ::
    "endpoint_config \<Rightarrow> operation \<Rightarrow> permission_factory option" where
  "configured_permission_factory ep op =
     (case op of
        CreateOp \<Rightarrow> create_permission_factory_imp ep
      | ListOp \<Rightarrow> list_permission_factory_imp ep
      | ReadOp \<Rightarrow> read_permission_factory_imp ep
      | UpdateOp \<Rightarrow> update_permission_factory_imp ep
      | DeleteOp \<Rightarrow> delete_permission_factory_imp ep)"

definition permission_factory_for ::
    "endpoint_config \<Rightarrow> operation \<Rightarrow> permission_factory" where
  "permission_factory_for ep op =
     (case configured_permission_factory ep op of
        Some f \<Rightarrow> f
      | None \<Rightarrow> default_permission_factory op)"

subsection \<open>Record loaders\<close>

text \<open>
  The part of the current request that the loaders read: its declared media type and its
  body.
\<close>

record request =
  mimetype :: string
  data :: string

text \<open>
  Flask's \<^verbatim>\<open>Request.is_json\<close>: the media type is application/json or
  application/*+json.
\<close>

definition is_json :: "request \<Rightarrow> bool" where
  "is_json req =
     (mimetype req = ''application/json''
      \<or> (prefix ''application/'' (mimetype req) \<and> suffix ''+json'' (mimetype req)))"

text \<open>
  The outcomes of Flask's \<^verbatim>\<open>Request.get_json\<close>. \<open>NotJSON\<close> is what a request
  whose media type is not JSON gets when parsing is not forced: the body is not parsed
  and no document is returned. \<open>LoadingFailed\<close> is a body that the JSON parser rejects.
\<close>

datatype 'j json_outcome = Parsed 'j | NotJSON | LoadingFailed

text \<open>
  \<^verbatim>\<open>request.get_json(force=...)\<close>; the JSON parser is a parameter
  (\<open>None\<close> where it raises).
\<close>

definition get_json :: "(string \<Rightarrow> 'j option) \<Rightarrow> bool \<Rightarrow> request \<Rightarrow> 'j json_outcome" where
  "get_json loads force req =
     (if \<not> (force \<or> is_json req) then NotJSON
      else (case loads (data req) of None \<Rightarrow> LoadingFailed | Some j \<Rightarrow> Parsed j))"

definition RECORDS_REST_DEFAULT_LOADERS ::
    "(string \<Rightarrow> 'j option) \<Rightarrow> (string \<times> (request \<Rightarrow> 'j json_outcome)) list" where
  "RECORDS_REST_DEFAULT_LOADERS loads =
     [(''application/json'', \<lambda>req. get_json loads False req),
      (''application/json-patch+json'', \<lambda>req. get_json loads True req)]"

subsection \<open>Sort options and default sort\<close>




subsection \<open>Search requests\<close>

definition RECORDS_REST_DEFAULT_RESULTS_SIZE :: int where
  "RECORDS_REST_DEFAULT_RESULTS_SIZE = 10"

definition RECORDS_REST_FACETS_POST_FILTERS_PROPAGATE :: bool where
  "RECORDS_REST_FACETS_POST_FILTERS_PROPAGATE = False"

text \<open>
  What one search request carries: the free-text query, the name of the sort option, the
  selected values of each facet key, the page number and the page size. An argument the
  URL does not give is \<open>None\<close> (for a facet key: the empty list).
\<close>

record search_request =
  q :: "string option"
  sort_arg :: "string option"
  facet_values :: "string \<Rightarrow> string list"
  page :: int
  size_arg :: "int option"

text \<open>
  The page size of a request: the one it specifies, else the configured default.
\<close>

definition results_size :: "search_request \<Rightarrow> int" where
  "results_size req =
     (case size_arg req of None \<Rightarrow> RECORDS_REST_DEFAULT_RESULTS_SIZE | Some s \<Rightarrow> s)"







subsection \<open>Result window\<close>

datatype rest_error = ResultWindowExceededError

text \<open>
  Modelled from the spec: the item offset of a request. The page number counts from 1,
  so the requested items are those from \<open>(page - 1) * size\<close> on; then
  \<open>offset + size\<close> and page number times page size are the same number.
\<close>

definition offset :: "search_request \<Rightarrow> int" where
  "offset req = (page req - 1) * results_size req"

text \<open>
  Modelled from the spec: the last step of the search pipeline (window and paginate),
  which is not part of config.py. A request with
  \<open>offset + size > max_result_window\<close> is rejected; any other is sliced at its
  own offset and size.
\<close>

definition window_and_paginate :: "int \<Rightarrow> search_request \<Rightarrow> rest_error + (int \<times> int)" where
  "window_and_paginate max_window req =
     (if offset req + results_size req > max_window then Inl ResultWindowExceededError
      else Inr (offset req, results_size req))"

text \<open>
  Modelled from the spec: a search on an endpoint. The index collaborator is a parameter:
  it is given the slice to serve and its own state, and returns its result and its new
  state. The window is checked first; a rejected request leaves the collaborator's
  state as it was.
\<close>

definition search_view ::
    "endpoint_config \<Rightarrow> (int \<times> int \<Rightarrow> 'idx \<Rightarrow> 'res \<times> 'idx) \<Rightarrow> search_request \<Rightarrow> 'idx
     \<Rightarrow> (rest_error + 'res) \<times> 'idx" where
  "search_view ep execute req idx =
     (case window_and_paginate (max_result_window ep) req of
        Inl e \<Rightarrow> (Inl e, idx)
      | Inr slice \<Rightarrow> (case execute slice idx of (res, idx') \<Rightarrow> (Inr res, idx')))"

text \<open>
  An index collaborator that records every slice it is asked for and answers with the
  number of calls it has seen before.
\<close>

definition logging_index :: "int \<times> int \<Rightarrow> (int \<times> int) list \<Rightarrow> nat \<times> (int \<times> int) list" where
  "logging_index slice log = (length log, log @ [slice])"

subsection \<open>Response serialization\<close>

record response =
  status_code :: int
  headers :: "(string \<times> string) list"
  body :: string

text \<open>
  The content type of a response is its first Content-Type header.
\<close>

definition content_type :: "response \<Rightarrow> string option" where
  "content_type resp = map_of (headers resp) ''Content-Type''"

text \<open>
  The extra headers of a call: none when the argument is left out.
\<close>

definition extra_headers :: "(string \<times> string) list option \<Rightarrow> (string \<times> string) list" where
  "extra_headers hs = (case hs of None \<Rightarrow> [] | Some l \<Rightarrow> l)"


text \<open>
  Modelled from the spec: \<^verbatim>\<open>serializers.response.search_responsify\<close>, the same
  for a search result: the serializer is given the fetcher and the result sequence as
  they are.
\<close>

definition search_responsify ::
    "('f \<Rightarrow> 'x list \<Rightarrow> string) \<Rightarrow> string \<Rightarrow> 'f \<Rightarrow> 'x list \<Rightarrow> int option
     \<Rightarrow> (string \<times> string) list option \<Rightarrow> response" where
  "search_responsify serialize_search mimetype_arg fetcher result code hs =
     \<lparr>status_code = (case code of None \<Rightarrow> 200 | Some c \<Rightarrow> c),
      headers = (''Content-Type'', mimetype_arg) # extra_headers hs,
      body = serialize_search fetcher result\<rparr>"

text \<open>
  Python's \<^verbatim>\<open>str\<close> on a natural number: its decimal digits, most significant
  first, and \<open>nat_of_digits\<close>, which reads such a string back.
\<close>

definition digit_char :: "nat \<Rightarrow> char" where
  "digit_char d = char_of (48 + d)"

definition digit_val :: "char \<Rightarrow> nat" where
  "digit_val c = of_char c - 48"

fun str :: "nat \<Rightarrow> string" where
  "str n = (if n < 10 then [digit_char n] else str (n div 10) @ [digit_char (n mod 10)])"

declare str.simps [simp del]

definition nat_of_digits :: "string \<Rightarrow> nat" where
  "nat_of_digits s = foldl (\<lambda>acc c. 10 * acc + digit_val c) 0 s"

text \<open>
  \<^verbatim>\<open>TestSerializer.serialize_search\<close> of the test module:
  \<^verbatim>\<open>str(len(result))\<close>.
\<close>

definition TestSerializer_serialize_search :: "'f \<Rightarrow> 'x list \<Rightarrow> string" where
  "TestSerializer_serialize_search fetcher result = str (length result)"

subsection \<open>Facets\<close>

text \<open>
  An indexed document: its fields and their values.
\<close>

type_synonym document = "(string \<times> string) list"

datatype aggregation = Terms string

text \<open>
  Modelled from the spec: \<^verbatim>\<open>facets.terms_filter\<close>, imported by config.py: the
  filter-producing function of a field. Given the selected values it yields the
  filter that a document passes when its value of the field is one of them.
\<close>

definition terms_filter :: "string \<Rightarrow> string list \<Rightarrow> document \<Rightarrow> bool" where
  "terms_filter field vs doc =
     (case map_of doc field of None \<Rightarrow> False | Some v \<Rightarrow> v \<in> set vs)"

text \<open>
  One entry of \<^verbatim>\<open>RECORDS_REST_FACETS\<close>; a key the dictionary does not have is the
  empty dictionary.
\<close>

record facets_config =
  aggs :: "(string \<times> aggregation) list"
  filters :: "(string \<times> (string list \<Rightarrow> document \<Rightarrow> bool)) list"
  post_filters :: "(string \<times> (string list \<Rightarrow> document \<Rightarrow> bool)) list"

definition RECORDS_REST_FACETS :: "(string \<times> facets_config) list" where
  "RECORDS_REST_FACETS =
     [(''records'',
       \<lparr>aggs = [(''type'', Terms ''type'')],
        filters = [],
        post_filters = [(''type'', terms_filter ''type'')]\<rparr>)]"

text \<open>
  The query under construction: the filters of the query itself, the post-filters, and
  the named aggregations, each with the filters its computation is restricted by.
\<close>

record search =
  query_filters :: "(document \<Rightarrow> bool) list"
  post_filter :: "(document \<Rightarrow> bool) list"
  search_aggs :: "(string \<times> (document \<Rightarrow> bool) list \<times> aggregation) list"

text \<open>
  Modelled from the spec: the facets step of the search pipeline, which is not part of
  config.py. For each configured facet key that the request selects values of, the
  filter of those values.
\<close>

definition create_filter_dsl ::
    "(string \<times> (string list \<Rightarrow> document \<Rightarrow> bool)) list \<Rightarrow> search_request
     \<Rightarrow> (document \<Rightarrow> bool) list" where
  "create_filter_dsl definitions req =
     map (\<lambda>(name, filter_factory). filter_factory (facet_values req name))
       (filter (\<lambda>(name, filter_factory). facet_values req name \<noteq> []) definitions)"

text \<open>
  Modelled from the spec: apply facets (the filters join the query), attach every
  configured aggregation, apply the post-filters. With propagation on, the aggregation
  of a facet key is computed under the post-filters selected for all other keys; with
  propagation off, under none.
\<close>

definition default_facets_factory ::
    "bool \<Rightarrow> facets_config \<Rightarrow> search_request \<Rightarrow> search \<Rightarrow> search" where
  "default_facets_factory propagate cfg req s =
     \<lparr>query_filters = query_filters s @ create_filter_dsl (filters cfg) req,
      post_filter = post_filter s @ create_filter_dsl (post_filters cfg) req,
      search_aggs =
        map (\<lambda>(name, agg).
               (name,
                (if propagate
                 then create_filter_dsl (filter (\<lambda>(k, f). k \<noteq> name) (post_filters cfg)) req
                 else []),
                agg))
          (aggs cfg)
        @ search_aggs s\<rparr>"

text \<open>
  Modelled from the spec: what the index collaborator returns for a query. The base
  result set is the documents that pass the query and the post-filters; the count of
  an aggregation's bucket is over the documents that pass the query and the
  aggregation's own filters, post-filters apart.
\<close>

definition hits :: "document list \<Rightarrow> search \<Rightarrow> document list" where
  "hits docs s =
     filter (\<lambda>d. list_all (\<lambda>f. f d) (query_filters s) \<and> list_all (\<lambda>f. f d) (post_filter s)) docs"

definition bucket_count :: "document list \<Rightarrow> search \<Rightarrow> string \<Rightarrow> string \<Rightarrow> nat" where
  "bucket_count docs s name bucket =
     (case map_of (search_aggs s) name of
        None \<Rightarrow> 0
      | Some (fs, Terms field) \<Rightarrow>
          length (filter (\<lambda>d. list_all (\<lambda>f. f d) (query_filters s) \<and> list_all (\<lambda>f. f d) fs
                              \<and> map_of d field = Some bucket) docs))"

text \<open>
  A facet configuration with two categories, a request that selects a value of one of
  them, and two documents.
\<close>

definition two_facets :: facets_config where
  "two_facets =
     \<lparr>aggs = [(''type'', Terms ''type''), (''lang'', Terms ''lang'')],
      filters = [],
      post_filters = [(''type'', terms_filter ''type''), (''lang'', terms_filter ''lang'')]\<rparr>"

definition type_a_request :: search_request where
  "type_a_request =
     \<lparr>q = None, sort_arg = None,
      facet_values = (\<lambda>k. if k = ''type'' then [''a''] else []),
      page = 1, size_arg = None\<rparr>"

definition two_docs :: "document list" where
  "two_docs = [[(''type'', ''a''), (''lang'', ''en'')], [(''type'', ''b''), (''lang'', ''en'')]]"

definition empty_search :: search where
  "empty_search = \<lparr>query_filters = [], post_filter = [], search_aggs = []\<rparr>"


section \<open>Properties\<close>

subsection \<open>Default permission factories\<close>

text \<open>
  C1, as the configuration has it. For every endpoint that does not override the factory
  of an operation: the read default is allow-if-resolvable (it allows exactly when the
  identity resolves and is not gone), the list default allows every request, and the
  create, update and delete defaults deny every request.
\<close>

theorem default_permissions_without_override:
  "configured_permission_factory ep op = None \<Longrightarrow>
   permission_factory_for ep op ctx =
     (case op of
        ListOp \<Rightarrow> True
      | ReadOp \<Rightarrow> resolves ctx \<and> \<not> gone ctx
      | CreateOp \<Rightarrow> False
      | UpdateOp \<Rightarrow> False
      | DeleteOp \<Rightarrow> False)"
  by (cases op)
     (simp_all add: permission_factory_for_def default_permission_factory_def
        RECORDS_REST_DEFAULT_CREATE_PERMISSION_FACTORY_def
        RECORDS_REST_DEFAULT_LIST_PERMISSION_FACTORY_def
        RECORDS_REST_DEFAULT_READ_PERMISSION_FACTORY_def
        RECORDS_REST_DEFAULT_UPDATE_PERMISSION_FACTORY_def
        RECORDS_REST_DEFAULT_DELETE_PERMISSION_FACTORY_def
        allow_all_def deny_all_def check_search_def)

theorem default_permissions_without_override_witness:
  "configured_permission_factory recid ReadOp = None
   \<and> permission_factory_for recid ReadOp \<lparr>resolves = True, gone = True\<rparr> = False
   \<and> permission_factory_for recid ReadOp \<lparr>resolves = True, gone = False\<rparr> = True"
proof -
  have h: "configured_permission_factory recid ReadOp = None"
    by (simp add: configured_permission_factory_def recid_def)
  show ?thesis
    using h default_permissions_without_override [OF h, of "\<lparr>resolves = True, gone = True\<rparr>"]
      default_permissions_without_override [OF h, of "\<lparr>resolves = True, gone = False\<rparr>"]
    by simp
qed

text \<open>
  C1 as stated fails for the list operation: the recid endpoint overrides nothing, and
  its list permission allows a context whose identity does not resolve, and one whose
  target is gone, so the list default is not allow-if-resolvable.
\<close>

theorem list_default_allows_unresolvable:
  "configured_permission_factory recid ListOp = None
   \<and> permission_factory_for recid ListOp \<lparr>resolves = False, gone = False\<rparr>
   \<and> \<not> (resolves \<lparr>resolves = False, gone = False\<rparr>
          \<and> \<not> gone \<lparr>resolves = False, gone = False\<rparr>)
   \<and> permission_factory_for recid ListOp \<lparr>resolves = True, gone = True\<rparr>"
  by (simp add: permission_factory_for_def configured_permission_factory_def recid_def
        default_permission_factory_def RECORDS_REST_DEFAULT_LIST_PERMISSION_FACTORY_def
        allow_all_def)

subsection \<open>Result window\<close>

lemma offset_plus_size: "offset req + results_size req = page req * results_size req"
  by (simp add: offset_def algebra_simps)

lemma window_within_served:
  "offset req + results_size req \<le> max_result_window ep \<Longrightarrow>
   search_view ep logging_index req log
     = (Inr (length log), log @ [(offset req, results_size req)])"
  by (simp add: search_view_def window_and_paginate_def logging_index_def)

text \<open>
  C2. A search request whose pagination exceeds the endpoint's max result window, stated
  as \<open>offset + size > max_result_window\<close> or as page number times page size above
  it, is rejected with ResultWindowExceededError whatever the index collaborator is,
  and the collaborator's state is the one before the request: it was not contacted,
  and no shortened slice was served.
\<close>

theorem window_exceeded_rejected:
  "offset req + results_size req > max_result_window ep
     \<or> page req * results_size req > max_result_window ep \<Longrightarrow>
   search_view ep execute req idx = (Inl ResultWindowExceededError, idx)"
  using offset_plus_size [of req]
  by (auto simp add: search_view_def window_and_paginate_def)

theorem window_exceeded_rejected_witness:
  "offset \<lparr>q = None, sort_arg = None, facet_values = (\<lambda>k. []), page = 1001, size_arg = None\<rparr>
     + results_size
         \<lparr>q = None, sort_arg = None, facet_values = (\<lambda>k. []), page = 1001, size_arg = None\<rparr>
     > max_result_window recid
   \<and> search_view recid logging_index
       \<lparr>q = None, sort_arg = None, facet_values = (\<lambda>k. []), page = 1001, size_arg = None\<rparr> []
     = (Inl ResultWindowExceededError, [])"
proof -
  let ?req = "\<lparr>q = None, sort_arg = None, facet_values = (\<lambda>k. []), page = 1001,
                size_arg = None\<rparr>"
  have h: "offset ?req + results_size ?req > max_result_window recid"
    by (simp add: offset_def results_size_def RECORDS_REST_DEFAULT_RESULTS_SIZE_def recid_def)
  then have "offset ?req + results_size ?req > max_result_window recid
     \<or> page ?req * results_size ?req > max_result_window recid"
    by (rule disjI1)
  from window_exceeded_rejected [OF this, of logging_index "[]"] h
  show ?thesis by simp
qed

subsection \<open>Response serialization\<close>



lemma digit_val_digit_char: "d < 10 \<Longrightarrow> digit_val (digit_char d) = d"
  by (simp add: digit_val_def digit_char_def)

lemma nat_of_digits_snoc: "nat_of_digits (s @ [c]) = 10 * nat_of_digits s + digit_val c"
  by (simp add: nat_of_digits_def)

lemma nat_of_digits_str: "nat_of_digits (str n) = n"
proof (induction n rule: str.induct)
  case (1 n)
  show ?case
  proof (cases "n < 10")
    case True
    then show ?thesis
      by (simp add: str.simps [of n] nat_of_digits_def digit_val_digit_char)
  next
    case False
    then have "nat_of_digits (str n)
        = 10 * nat_of_digits (str (n div 10)) + digit_val (digit_char (n mod 10))"
      by (simp add: str.simps [of n] nat_of_digits_snoc)
    also have "\<dots> = 10 * (n div 10) + n mod 10"
      using False "1.IH" by (simp add: digit_val_digit_char)
    finally show ?thesis by simp
  qed
qed

lemma str_inject: "str m = str n \<Longrightarrow> m = n"
proof -
  assume "str m = str n"
  then have "nat_of_digits (str m) = nat_of_digits (str n)" by simp
  then show "m = n" by (simp add: nat_of_digits_str)
qed

text \<open>
  C4. Rendering a search result hands the result sequence to the serializer as it is, so
  the body is what the serializer makes of exactly that sequence. For the
  length-reporting serializer of the test module and a result sequence of length N, the
  body is the decimal numeral of N: it reads back as N, and it is the numeral of no
  other number.
\<close>

theorem search_body_reflects_length:
  "body (search_responsify ser mt fetcher result code hs) = ser fetcher result
   \<and> body (search_responsify TestSerializer_serialize_search mt fetcher result code hs)
       = str (length result)
   \<and> nat_of_digits
         (body (search_responsify TestSerializer_serialize_search mt fetcher result code hs))
       = length result
   \<and> (\<forall>m. str m
             = body (search_responsify TestSerializer_serialize_search mt fetcher result code hs)
           \<longrightarrow> m = length result)"
proof -
  have b: "body (search_responsify TestSerializer_serialize_search mt fetcher result code hs)
      = str (length result)"
    by (simp add: search_responsify_def TestSerializer_serialize_search_def)
  have g: "body (search_responsify ser mt fetcher result code hs) = ser fetcher result"
    by (simp add: search_responsify_def)
  show ?thesis
    unfolding b using g by (auto simp add: nat_of_digits_str dest: str_inject)
qed

theorem search_body_reflects_length_witness:
  "body (search_responsify TestSerializer_serialize_search ''application/x-custom'' ()
       [''a'', ''a'', ''a'', ''a'', ''a''] None None) = ''5''
   \<and> str 5 = ''5''
   \<and> (5::nat) = length [''a'', ''a'', ''a'', ''a'', ''a'']"
proof -
  let ?r = "[''a'', ''a'', ''a'', ''a'', ''a'']"
  have s5: "str 5 = ''5''" by code_simp
  have len: "length ?r = 5" by simp
  from search_body_reflects_length
    [of "TestSerializer_serialize_search :: unit \<Rightarrow> string list \<Rightarrow> string"
        "''application/x-custom''" "()" ?r None None]
  have "body (search_responsify TestSerializer_serialize_search ''application/x-custom'' ()
      ?r None None) = str (length ?r)"
    by blast
  then have b: "body (search_responsify TestSerializer_serialize_search ''application/x-custom''
      () ?r None None) = ''5''"
    by (simp only: len s5)
  show ?thesis using b s5 by simp
qed

text \<open>
  The assertions of \<^verbatim>\<open>test_search_responsify\<close> hold of the model: a result of five
  items renders as "5" with status 200 and the bound content type, and the call with
  code 201 and the header X-Test has that status and that header.
\<close>

lemma test_search_responsify:
  "status_code (search_responsify TestSerializer_serialize_search ''application/x-custom'' ()
       [''a'', ''a'', ''a'', ''a'', ''a''] None None) = 200
   \<and> content_type (search_responsify TestSerializer_serialize_search ''application/x-custom'' ()
       [''a'', ''a'', ''a'', ''a'', ''a''] None None) = Some ''application/x-custom''
   \<and> body (search_responsify TestSerializer_serialize_search ''application/x-custom'' ()
       [''a'', ''a'', ''a'', ''a'', ''a''] None None) = ''5''
   \<and> status_code (search_responsify TestSerializer_serialize_search ''application/x-custom'' ()
       [''a'', ''a'', ''a'', ''a'', ''a''] (Some 201) (Some [(''X-Test'', ''test'')])) = 201
   \<and> map_of (headers (search_responsify TestSerializer_serialize_search ''application/x-custom''
       () [''a'', ''a'', ''a'', ''a'', ''a''] (Some 201) (Some [(''X-Test'', ''test'')])))
       ''X-Test'' = Some ''test''"
proof -
  have s5: "str 5 = ''5''" by code_simp
  have len: "length [''a'', ''a'', ''a'', ''a'', ''a''] = 5" by simp
  have "TestSerializer_serialize_search () [''a'', ''a'', ''a'', ''a'', ''a''] = ''5''"
    unfolding TestSerializer_serialize_search_def len by (rule s5)
  then show ?thesis
    by (simp add: search_responsify_def content_type_def extra_headers_def)
qed

subsection \<open>Facets\<close>

lemma hits_propagate_irrelevant:
  "hits docs (default_facets_factory True cfg req s)
     = hits docs (default_facets_factory False cfg req s)"
  by (simp add: hits_def default_facets_factory_def)

lemma two_facets_counts:
  "bucket_count two_docs (default_facets_factory True two_facets type_a_request empty_search)
       ''lang'' ''en'' = 1
   \<and> bucket_count two_docs (default_facets_factory False two_facets type_a_request empty_search)
       ''lang'' ''en'' = 2"
  by (simp add: bucket_count_def default_facets_factory_def two_facets_def type_a_request_def
      empty_search_def two_docs_def create_filter_dsl_def terms_filter_def)

text \<open>
  C5. The post-filter propagation toggle is off by default. For every facet
  configuration, search request, query under construction and document collection, the
  base result set is the same with the toggle on and off; the aggregation counts under
  another facet category can differ, as they do for the bucket "en" of the category
  "lang" when a value of the category "type" is selected.
\<close>

theorem post_filter_propagation_frame:
  "RECORDS_REST_FACETS_POST_FILTERS_PROPAGATE = False
   \<and> hits docs (default_facets_factory True cfg req s)
       = hits docs (default_facets_factory False cfg req s)
   \<and> bucket_count two_docs (default_facets_factory True two_facets type_a_request empty_search)
         ''lang'' ''en''
       \<noteq> bucket_count two_docs
           (default_facets_factory False two_facets type_a_request empty_search)
           ''lang'' ''en''"
  using two_facets_counts
  by (simp add: RECORDS_REST_FACETS_POST_FILTERS_PROPAGATE_def hits_propagate_irrelevant)

subsection \<open>Default sort\<close>




subsection \<open>Default page size\<close>

text \<open>
  C8. For every search request that does not specify a page size, the page size is the
  configured default, which is 10.
\<close>

theorem default_page_size:
  "size_arg req = None \<Longrightarrow>
   results_size req = RECORDS_REST_DEFAULT_RESULTS_SIZE \<and> results_size req = 10"
  by (simp add: results_size_def RECORDS_REST_DEFAULT_RESULTS_SIZE_def)

theorem default_page_size_witness:
  "size_arg \<lparr>q = None, sort_arg = None, facet_values = (\<lambda>k. []), page = 1, size_arg = None\<rparr>
     = None
   \<and> results_size
       \<lparr>q = None, sort_arg = None, facet_values = (\<lambda>k. []), page = 1, size_arg = None\<rparr> = 10"
  using default_page_size
    [of "\<lparr>q = None, sort_arg = None, facet_values = (\<lambda>k. []), page = 1, size_arg = None\<rparr>"]
  by simp

subsection \<open>Default loaders\<close>

text \<open>
  C9. The two default loaders differ. The application/json-patch+json loader parses the
  body of every request, whatever its declared content type; the application/json
  loader parses the body only of a request that declares a JSON content type, and
  yields no document otherwise. So for a request with a body that parses and the
  content type text/plain, the patch loader yields the parsed document and the plain
  JSON loader does not.
\<close>

theorem loaders_asymmetric:
  "loads json_text = Some j \<Longrightarrow>
   (\<exists>plain patch.
      map_of (RECORDS_REST_DEFAULT_LOADERS loads) ''application/json'' = Some plain
      \<and> map_of (RECORDS_REST_DEFAULT_LOADERS loads) ''application/json-patch+json'' = Some patch
      \<and> (\<forall>req. patch req
                 = (case loads (data req) of None \<Rightarrow> LoadingFailed | Some d \<Rightarrow> Parsed d))
      \<and> (\<forall>req. plain req = (if is_json req then patch req else NotJSON))
      \<and> \<not> is_json \<lparr>mimetype = ''text/plain'', data = json_text\<rparr>
      \<and> patch \<lparr>mimetype = ''text/plain'', data = json_text\<rparr> = Parsed j
      \<and> plain \<lparr>mimetype = ''text/plain'', data = json_text\<rparr> = NotJSON)"
  by (simp add: RECORDS_REST_DEFAULT_LOADERS_def get_json_def is_json_def)

theorem loaders_asymmetric_witness:
  "(\<lambda>s. if s = ''{}'' then Some ([] :: (string \<times> string) list) else None) ''{}'' = Some []
   \<and> (\<exists>plain patch.
        map_of (RECORDS_REST_DEFAULT_LOADERS
                  (\<lambda>s. if s = ''{}'' then Some ([] :: (string \<times> string) list) else None))
            ''application/json'' = Some plain
        \<and> map_of (RECORDS_REST_DEFAULT_LOADERS
                    (\<lambda>s. if s = ''{}'' then Some ([] :: (string \<times> string) list) else None))
            ''application/json-patch+json'' = Some patch
        \<and> patch \<lparr>mimetype = ''text/plain'', data = ''{}''\<rparr> = Parsed []
        \<and> plain \<lparr>mimetype = ''text/plain'', data = ''{}''\<rparr> = NotJSON)"
proof -
  let ?loads = "\<lambda>s. if s = ''{}'' then Some ([] :: (string \<times> string) list) else None"
  have h: "?loads ''{}'' = Some []" by simp
  from loaders_asymmetric [of ?loads "''{}''" "[]", OF h] h
  show ?thesis by blast
qed

subsection \<open>Endpoint defaults\<close>

text \<open>
  C10. In the default endpoint configuration of the recid resource type, the configured
  default media type is application/json and it is a key of the record-serializer map
  and of the search-serializer map: looking the default media type up, which is the
  content negotiator's last step, finds the registered binding for item rendering and
  for list rendering.
\<close>

theorem default_media_type_registered:
  "map_of RECORDS_REST_ENDPOINTS ''recid'' = Some recid
   \<and> default_media_type recid = ''application/json''
   \<and> default_media_type recid \<in> fst ` set (record_serializers recid)
   \<and> default_media_type recid \<in> fst ` set (search_serializers recid)
   \<and> map_of (record_serializers recid) (default_media_type recid)
       = Some ''invenio_records_rest.serializers:json_v1_response''
   \<and> map_of (search_serializers recid) (default_media_type recid)
       = Some ''invenio_records_rest.serializers:json_v1_search''"
  by (simp add: RECORDS_REST_ENDPOINTS_def recid_def)

end
